theory Spec2Isabelle
  imports Main "HOL-Library.Finite_Map"
begin

section \<open>The timeline events hook (\<open>useTimelineEventsHandler\<close>)\<close>

text \<open>
  A shallow embedding of the hook of \<^verbatim>\<open>src/unnamed/part_000\<close>: the React state
  variables and refs of one hook instance, the shared \<^verbatim>\<open>activeTimeline\<close> object and the
  search service are one record that every operation takes and returns. Calls to
  \<^verbatim>\<open>setState\<close> are applied at once, in program order.
\<close>

subsection \<open>Data\<close>

text \<open>Modelled from the spec: \<^verbatim>\<open>KueryFilterQueryKind\<close> is declared outside src/; the
  spec names the three dialects.\<close>
datatype KueryFilterQueryKind = kuery | lucene | eql

text \<open>\<^verbatim>\<open>DataLoadingState\<close> of the data table: the three values the hook sets.\<close>
datatype DataLoadingState = Loading | LoadingMore | Loaded

datatype Direction = asc | desc

datatype TimerangeKind = absolute | relative

datatype TimelineEventsQueries = TimelineEventsQueries_all

record TimelineRequestSortField =
  field :: string
  direction :: Direction
  type' :: string
  esTypes :: "string list"

definition initSortDefault :: "TimelineRequestSortField list" where
  "initSortDefault =
     [\<lparr>field = ''@timestamp'', direction = asc, type' = ''date'', esTypes = [''date'']\<rparr>]"

text \<open>A JavaScript value that is a number or a string: the type of \<^verbatim>\<open>EqlOptions.size\<close> is
  declared outside src/, and lodash's \<^verbatim>\<open>isEmpty\<close> tells the two apart.\<close>
datatype JsValue = JsNumber int | JsString string

text \<open>A key of a JavaScript object: the object does not have the key, or has it with the
  value \<^verbatim>\<open>undefined\<close>, or has it with a value. Reading the key gives \<^verbatim>\<open>undefined\<close> in
  the first two cases; \<^verbatim>\<open>fast-deep-equal\<close> compares the numbers of keys and so tells the
  two apart.\<close>
datatype 'a JsKey = Missing | Undefined | Defined 'a

definition value_of :: "'a JsKey \<Rightarrow> 'a option" where
  "value_of k = (case k of Missing \<Rightarrow> None | Undefined \<Rightarrow> None | Defined v \<Rightarrow> Some v)"

record EqlOptions =
  eventCategoryField :: "string JsKey"
  size' :: "JsValue JsKey"
  query :: "string JsKey"
  tiebreakerField :: "string JsKey"
  timestampField :: "string JsKey"

text \<open>An ES query object is kept as its top-level keys with their values as text
  (\<^verbatim>\<open>typed_json\<close> is outside src/).\<close>
type_synonym ESQuery = "(string \<times> string) list"

datatype FilterQuery = FilterString string | FilterESQuery ESQuery

text \<open>\<^verbatim>\<open>RunTimeMappings\<close> is declared outside src/: an object from field names to field
  definitions, the definitions kept as text. Two such objects are deep-equal exactly when
  they are equal as finite maps.\<close>
type_synonym RunTimeMappings = "(string, string) fmap"

record Timerange =
  interval :: string
  from' :: string
  to' :: string

record Pagination =
  activePage :: int
  querySize :: int

text \<open>The request object built at lines 386-401. The keys of \<^verbatim>\<open>eqlOptions\<close> that the
  spread at line 400 copies into the request are kept together in \<open>eqlKeys\<close>, each
  missing, undefined or with its value, as the spread copies it. \<^verbatim>\<open>filterQuery\<close> is
  always a key, its value may be \<^verbatim>\<open>undefined\<close> (\<open>None\<close>); the key \<^verbatim>\<open>timerange\<close> is
  there or not (lines 351-354, 399).\<close>
record TimelineRequest =
  defaultIndex :: "string list"
  factoryQueryType :: TimelineEventsQueries
  fieldRequested :: "string list"
  fields' :: "string list"
  filterQuery :: "string option"
  pagination :: Pagination
  language :: KueryFilterQueryKind
  runtimeMappings :: RunTimeMappings
  sort' :: "TimelineRequestSortField list"
  timerange :: "Timerange option"
  eqlKeys :: EqlOptions

text \<open>The props of the hook (\<^verbatim>\<open>UseTimelineEventsProps\<close>), an optional prop as an option.\<close>
record UseTimelineEventsProps =
  p_dataViewId :: "string option"
  p_endDate :: "string option"
  p_eqlOptions :: "EqlOptions option"
  p_fields :: "string list"
  p_filterQuery :: "FilterQuery option"
  p_id :: "string option"
  p_indexNames :: "string list"
  p_language :: "KueryFilterQueryKind option"
  p_limit :: int
  p_runtimeMappings :: RunTimeMappings
  p_skip :: "bool option"
  p_sort :: "TimelineRequestSortField list option"
  p_startDate :: "string option"
  p_timerangeKind :: "TimerangeKind option"

definition ID :: string where
  "ID = ''timelineEventsQuery''"

text \<open>The defaults of the destructuring at lines 138-153.\<close>
definition id_of :: "UseTimelineEventsProps \<Rightarrow> string" where
  "id_of p = (case p_id p of None \<Rightarrow> ID | Some i \<Rightarrow> i)"

definition language_of :: "UseTimelineEventsProps \<Rightarrow> KueryFilterQueryKind" where
  "language_of p = (case p_language p of None \<Rightarrow> kuery | Some l \<Rightarrow> l)"

definition sort_of :: "UseTimelineEventsProps \<Rightarrow> TimelineRequestSortField list" where
  "sort_of p = (case p_sort p of None \<Rightarrow> initSortDefault | Some s \<Rightarrow> s)"

definition skip_of :: "UseTimelineEventsProps \<Rightarrow> bool" where
  "skip_of p = (case p_skip p of None \<Rightarrow> False | Some b \<Rightarrow> b)"

text \<open>Modelled from the spec: the enum \<^verbatim>\<open>TimelineId\<close> is declared outside src/; the spec
  says that exactly one identity is the distinguished one.\<close>
definition TimelineId_active :: string where
  "TimelineId_active = ''timeline-1''"

subsection \<open>lodash \<^verbatim>\<open>isEmpty\<close>\<close>

text \<open>\<^verbatim>\<open>isEmpty\<close> is true of \<^verbatim>\<open>undefined\<close>, of the empty string, of an object with no
  key, and of every number.\<close>

definition isEmpty_string :: "string option \<Rightarrow> bool" where
  "isEmpty_string v = (case v of None \<Rightarrow> True | Some s \<Rightarrow> s = [])"

definition isEmpty_value :: "JsValue option \<Rightarrow> bool" where
  "isEmpty_value v =
     (case v of None \<Rightarrow> True | Some (JsNumber n) \<Rightarrow> True | Some (JsString s) \<Rightarrow> s = [])"

definition isEmpty_filterQuery :: "FilterQuery option \<Rightarrow> bool" where
  "isEmpty_filterQuery v =
     (case v of None \<Rightarrow> True
      | Some (FilterString s) \<Rightarrow> s = []
      | Some (FilterESQuery q) \<Rightarrow> q = [])"

subsection \<open>Deriving the request (the effect of lines 334-428)\<close>

text \<open>The object \<^verbatim>\<open>deStructureEqlOptions\<close> returns: each of the four keys is there only
  when its value is not empty.\<close>
record DeStructuredEqlOptions =
  d_eventCategoryField :: "string option"
  d_size :: "JsValue option"
  d_tiebreakerField :: "string option"
  d_timestampField :: "string option"

definition deStructureEqlOptions :: "EqlOptions option \<Rightarrow> DeStructuredEqlOptions" where
  "deStructureEqlOptions eqlOptions =
     (let eventCategoryField' = Option.bind eqlOptions (\<lambda>e. value_of (eventCategoryField e));
          size'' = Option.bind eqlOptions (\<lambda>e. value_of (size' e));
          tiebreakerField' = Option.bind eqlOptions (\<lambda>e. value_of (tiebreakerField e));
          timestampField' = Option.bind eqlOptions (\<lambda>e. value_of (timestampField e))
      in \<lparr>d_eventCategoryField =
             (if \<not> isEmpty_string eventCategoryField' then eventCategoryField' else None),
          d_size = (if \<not> isEmpty_value size'' then size'' else None),
          d_tiebreakerField =
             (if \<not> isEmpty_string tiebreakerField' then tiebreakerField' else None),
          d_timestampField =
             (if \<not> isEmpty_string timestampField' then timestampField' else None)\<rparr>)"

text \<open>The value under the key \<^verbatim>\<open>timerange\<close> of the two compared objects: the empty
  object \<^verbatim>\<open>{}\<close> or a time range.\<close>
datatype TimerangeValue = EmptyObject | TimerangeObject Timerange

text \<open>The two objects that line 365 compares. The key \<^verbatim>\<open>timerange\<close> may be missing
  (\<open>None\<close>); \<^verbatim>\<open>filterQuery\<close> is always a key, its value may be \<^verbatim>\<open>undefined\<close>
  (\<open>None\<close>).\<close>
record SearchParameters =
  sp_defaultIndex :: "string list"
  sp_filterQuery :: "string option"
  sp_querySize :: int
  sp_sort :: "TimelineRequestSortField list"
  sp_timerange :: "TimerangeValue option"
  sp_runtimeMappings :: RunTimeMappings
  sp_eql :: DeStructuredEqlOptions

definition prevSearchParameters :: "TimelineRequest option \<Rightarrow> SearchParameters" where
  "prevSearchParameters prevRequest =
     \<lparr>sp_defaultIndex = (case prevRequest of None \<Rightarrow> [] | Some r \<Rightarrow> defaultIndex r),
      sp_filterQuery =
        Some (case Option.bind prevRequest filterQuery of None \<Rightarrow> [] | Some q \<Rightarrow> q),
      sp_querySize = (case prevRequest of None \<Rightarrow> 0 | Some r \<Rightarrow> querySize (pagination r)),
      sp_sort = (case prevRequest of None \<Rightarrow> initSortDefault | Some r \<Rightarrow> sort' r),
      sp_timerange =
        Some (case Option.bind prevRequest timerange of
                None \<Rightarrow> EmptyObject | Some t \<Rightarrow> TimerangeObject t),
      sp_runtimeMappings = (case prevRequest of None \<Rightarrow> fmempty | Some r \<Rightarrow> runtimeMappings r),
      sp_eql = deStructureEqlOptions (map_option eqlKeys prevRequest)\<rparr>"

text \<open>Lines 351-354: both dates must be there and not the empty string.\<close>
definition timerange_of :: "UseTimelineEventsProps \<Rightarrow> Timerange option" where
  "timerange_of p =
     (case (p_startDate p, p_endDate p) of
        (Some startDate, Some endDate) \<Rightarrow>
          if startDate \<noteq> [] \<and> endDate \<noteq> []
          then Some \<lparr>interval = ''12h'', from' = startDate, to' = endDate\<rparr>
          else None
      | _ \<Rightarrow> None)"

text \<open>\<^verbatim>\<open>createFilter\<close> is imported from outside src/ and is a parameter here: it takes
  the filter prop to a string or to \<^verbatim>\<open>undefined\<close>.\<close>
type_synonym CreateFilter = "FilterQuery option \<Rightarrow> string option"

definition currentSearchParameters ::
  "CreateFilter \<Rightarrow> UseTimelineEventsProps \<Rightarrow> SearchParameters" where
  "currentSearchParameters createFilter p =
     \<lparr>sp_defaultIndex = p_indexNames p,
      sp_filterQuery = createFilter (p_filterQuery p),
      sp_querySize = p_limit p,
      sp_sort = sort_of p,
      sp_timerange = map_option TimerangeObject (timerange_of p),
      sp_runtimeMappings = p_runtimeMappings p,
      sp_eql = deStructureEqlOptions (p_eqlOptions p)\<rparr>"

definition newActivePage ::
  "CreateFilter \<Rightarrow> UseTimelineEventsProps \<Rightarrow> int \<Rightarrow> TimelineRequest option \<Rightarrow> int" where
  "newActivePage createFilter p activePage' prevRequest =
     (if prevSearchParameters prevRequest = currentSearchParameters createFilter p
      then activePage' else 0)"

text \<open>Lines 375-384. \<^verbatim>\<open>!prevRequest?.fieldRequested?.includes(field)\<close> is true of every
  field when there is no previous request.\<close>
definition finalFieldRequest ::
  "UseTimelineEventsProps \<Rightarrow> TimelineRequest option \<Rightarrow> string list" where
  "finalFieldRequest p prevRequest =
     (let prevFields = (case prevRequest of None \<Rightarrow> [] | Some r \<Rightarrow> fieldRequested r);
          newFieldsRequested =
            filter (\<lambda>field.
                case prevRequest of None \<Rightarrow> True | Some r \<Rightarrow> field \<notin> set (fieldRequested r))
              (p_fields p)
      in if length newFieldsRequested > 0 then prevFields @ newFieldsRequested
         else prevFields)"

definition emptyEqlOptions :: EqlOptions where
  "emptyEqlOptions =
     \<lparr>eventCategoryField = Missing, size' = Missing, query = Missing,
      tiebreakerField = Missing, timestampField = Missing\<rparr>"

definition currentRequest ::
  "CreateFilter \<Rightarrow> UseTimelineEventsProps \<Rightarrow> int \<Rightarrow> TimelineRequest option \<Rightarrow> TimelineRequest"
  where
  "currentRequest createFilter p activePage' prevRequest =
     \<lparr>defaultIndex = p_indexNames p,
      factoryQueryType = TimelineEventsQueries_all,
      fieldRequested = finalFieldRequest p prevRequest,
      fields' = finalFieldRequest p prevRequest,
      filterQuery = createFilter (p_filterQuery p),
      pagination =
        \<lparr>activePage = newActivePage createFilter p activePage' prevRequest,
         querySize = p_limit p\<rparr>,
      language = language_of p,
      runtimeMappings = p_runtimeMappings p,
      sort' = sort_of p,
      timerange = timerange_of p,
      eqlKeys = (case p_eqlOptions p of None \<Rightarrow> emptyEqlOptions | Some e \<Rightarrow> e)\<rparr>"

text \<open>What the updater of lines 339-413 returns: the new request unless it is deep-equal
  to the previous one.\<close>
definition deriveRequest ::
  "CreateFilter \<Rightarrow> UseTimelineEventsProps \<Rightarrow> int \<Rightarrow> TimelineRequest option
    \<Rightarrow> TimelineRequest option" where
  "deriveRequest createFilter p activePage' prevRequest =
     (if prevRequest \<noteq> Some (currentRequest createFilter p activePage' prevRequest)
      then Some (currentRequest createFilter p activePage' prevRequest)
      else prevRequest)"

subsection \<open>The state of one hook instance and of what it shares\<close>

text \<open>An event is kept as its identifier; an edge of a response as its node.\<close>
record TimelineItem =
  item_id :: string

record TimelineEdges =
  node :: TimelineItem

record InspectResponse =
  dsl :: "string list"
  response :: "string list"

text \<open>\<^verbatim>\<open>TimelineArgs\<close> without its two callbacks \<^verbatim>\<open>refetch\<close> and \<^verbatim>\<open>loadPage\<close>: they
  are always \<^verbatim>\<open>refetchGrid\<close> and \<^verbatim>\<open>wrappedLoadPage\<close> of the hook.\<close>
record TimelineArgs =
  events :: "TimelineItem list"
  id' :: string
  inspect :: InspectResponse
  pageInfo :: Pagination
  totalCount :: int
  refreshedAt :: int

text \<open>A response of the search service; \<open>isRunning\<close> is what \<^verbatim>\<open>isRunningResponse\<close>
  reads.\<close>
record StrategyResponse =
  edges :: "TimelineEdges list"
  r_pageInfo :: Pagination
  r_totalCount :: int
  r_inspect :: "string list"
  isRunning :: bool

text \<open>\<^verbatim>\<open>getInspectResponse\<close> is imported from outside src/ and is a parameter.\<close>
type_synonym GetInspectResponse = "StrategyResponse \<Rightarrow> InspectResponse \<Rightarrow> InspectResponse"

text \<open>Modelled from the spec: the object \<^verbatim>\<open>activeTimeline\<close> (\<^verbatim>\<open>active_timeline_context\<close>)
  is outside src/. The spec describes it as synchronous accessors on a single shared
  object: each getter returns what the setter of the same name stored last.\<close>
record ActiveTimeline =
  at_activePage :: int
  at_pageName :: string
  at_request :: "TimelineRequest option"
  at_response :: "TimelineArgs option"
  at_eqlRequest :: "TimelineRequest option"
  at_eqlResponse :: "TimelineArgs option"

text \<open>What the callbacks of one render have captured (the dependency lists of
  \<^verbatim>\<open>timelineSearch\<close> and \<^verbatim>\<open>wrappedLoadPage\<close>).\<close>
record Closure =
  c_pageName :: string
  c_skip :: bool
  c_id :: string
  c_activePage :: int
  c_dataViewId :: "string option"

text \<open>The ref \<^verbatim>\<open>refetch\<close>: \<^verbatim>\<open>noop\<close>, or the \<^verbatim>\<open>asyncSearch\<close> of one call of
  \<^verbatim>\<open>timelineSearch\<close> with what it captured (the render, the request and whether an
  \<^verbatim>\<open>onNextHandler\<close> was passed).\<close>
datatype Refetch = noop | AsyncSearch Closure TimelineRequest bool

text \<open>One call of \<^verbatim>\<open>data.search.search\<close>, with the subscriber's captured values.\<close>
record SearchCall =
  s_request :: TimelineRequest
  s_strategy :: string
  s_abortSignal :: nat
  s_indexPatternId :: "string option"
  s_closure :: Closure
  s_onNext :: bool

datatype TimelineAction = clearEventsLoading string | clearEventsDeleted string

text \<open>What the ref \<^verbatim>\<open>searchSubscription$\<close> can hold: the \<^verbatim>\<open>new Subscription()\<close> it
  starts with, or the subscription that call \<open>i\<close> of the search service returned.\<close>
datatype SubscriptionRef = InitialSubscription | OfSearch nat

text \<open>
  The hook instance: its state variables (\<open>loading\<close>, \<open>activePageState\<close> for
  \<^verbatim>\<open>activePage\<close>, \<open>timelineRequest\<close>, \<open>timelineResponse\<close>) and refs
  (\<open>prevTimelineRequest\<close>, \<open>refetch\<close>, \<open>abortCtrl\<close>, \<open>searchSubscription\<close>), and the
  world around it. Abort controllers are numbered in the order of their creation
  (\<open>controllers\<close> counts them, \<open>aborted\<close> lists the aborted ones). \<open>searches\<close> lists
  the calls of \<^verbatim>\<open>data.search.search\<close> in order; \<open>unsubscribed\<close> lists the subscriptions
  that \<^verbatim>\<open>unsubscribe\<close> was called on.
\<close>
record Hook =
  loading :: DataLoadingState
  activePageState :: int
  timelineRequest :: "TimelineRequest option"
  prevTimelineRequest :: "TimelineRequest option"
  timelineResponse :: TimelineArgs
  refetch :: Refetch
  abortCtrl :: nat
  searchSubscription :: SubscriptionRef
  controllers :: nat
  aborted :: "nat list"
  searches :: "SearchCall list"
  unsubscribed :: "SubscriptionRef list"
  shownErrors :: "string list"
  tracking :: "string list"
  activeTimeline :: ActiveTimeline
  actions :: "TimelineAction list"
  onNextCalls :: "TimelineArgs list"

text \<open>The initial value of \<^verbatim>\<open>timelineResponse\<close> (lines 196-211) and the value the
  effect of lines 447-466 sets.\<close>
definition emptyResponse :: "string \<Rightarrow> TimelineArgs" where
  "emptyResponse i =
     \<lparr>events = [], id' = i, inspect = \<lparr>dsl = [], response = []\<rparr>,
      pageInfo = \<lparr>activePage = 0, querySize = 0\<rparr>, totalCount = - 1, refreshedAt = 0\<rparr>"

text \<open>The hook at its first render (lines 154-211), given the shared object.\<close>
definition initHook :: "UseTimelineEventsProps \<Rightarrow> ActiveTimeline \<Rightarrow> Hook" where
  "initHook p at =
     \<lparr>loading = Loaded,
      activePageState = (if id_of p = TimelineId_active then at_activePage at else 0),
      timelineRequest = None,
      prevTimelineRequest = None,
      timelineResponse = emptyResponse (id_of p),
      refetch = noop,
      abortCtrl = 0,
      searchSubscription = InitialSubscription,
      controllers = 1,
      aborted = [],
      searches = [],
      unsubscribed = [],
      shownErrors = [],
      tracking = [],
      activeTimeline = at,
      actions = [],
      onNextCalls = []\<rparr>"

definition closure_of :: "UseTimelineEventsProps \<Rightarrow> string \<Rightarrow> Hook \<Rightarrow> Closure" where
  "closure_of p pageName st =
     \<lparr>c_pageName = pageName, c_skip = skip_of p, c_id = id_of p,
      c_activePage = activePageState st, c_dataViewId = p_dataViewId p\<rparr>"

text \<open>The subscriptions of searches that nobody has unsubscribed. (A subscription whose
  stream has ended is closed by rxjs as well; the model keeps it in this list.)\<close>
definition activeSubscriptions :: "Hook \<Rightarrow> nat list" where
  "activeSubscriptions st =
     filter (\<lambda>i. OfSearch i \<notin> set (unsubscribed st)) [0..<length (searches st)]"

subsection \<open>The operations\<close>

text \<open>\<^verbatim>\<open>searchSubscription$.current.unsubscribe()\<close> and \<^verbatim>\<open>abortCtrl.current.abort()\<close>.\<close>
definition unsubscribe :: "Hook \<Rightarrow> Hook" where
  "unsubscribe st =
     st\<lparr>unsubscribed := List.insert (searchSubscription st) (unsubscribed st)\<rparr>"

definition abort :: "Hook \<Rightarrow> Hook" where
  "abort st = st\<lparr>aborted := List.insert (abortCtrl st) (aborted st)\<rparr>"

text \<open>Lines 170-175 and 177-187; \<^verbatim>\<open>detectionsTimelineIds\<close> is imported from outside
  src/ and is a parameter.\<close>
definition clearSignalsState :: "string list \<Rightarrow> Closure \<Rightarrow> Hook \<Rightarrow> Hook" where
  "clearSignalsState detectionsTimelineIds c st =
     (if c_id c \<in> set detectionsTimelineIds
      then st\<lparr>actions := actions st @ [clearEventsLoading (c_id c), clearEventsDeleted (c_id c)]\<rparr>
      else st)"

definition wrappedLoadPage :: "string list \<Rightarrow> Closure \<Rightarrow> int \<Rightarrow> Hook \<Rightarrow> Hook" where
  "wrappedLoadPage detectionsTimelineIds c newActivePage' st =
     (let st1 = clearSignalsState detectionsTimelineIds c st;
          st2 = (if c_id c = TimelineId_active
                 then st1\<lparr>activeTimeline := (activeTimeline st1)\<lparr>at_activePage := newActivePage'\<rparr>\<rparr>
                 else st1)
      in st2\<lparr>activePageState := newActivePage'\<rparr>)"

text \<open>\<^verbatim>\<open>asyncSearch\<close>, lines 222-277, up to the subscription.\<close>
definition strategy_of :: "TimelineRequest \<Rightarrow> string" where
  "strategy_of request =
     (if language request = eql then ''timelineEqlSearchStrategy''
      else ''timelineSearchStrategy'')"

definition asyncSearch :: "Closure \<Rightarrow> TimelineRequest \<Rightarrow> bool \<Rightarrow> Hook \<Rightarrow> Hook" where
  "asyncSearch c request onNextHandler st =
     (let st1 = st\<lparr>prevTimelineRequest := Some request\<rparr>;
          st2 = st1\<lparr>abortCtrl := controllers st1, controllers := Suc (controllers st1)\<rparr>;
          st3 = (if c_activePage c = 0 then st2\<lparr>loading := Loading\<rparr>
                 else st2\<lparr>loading := LoadingMore\<rparr>)
      in st3\<lparr>searchSubscription := OfSearch (length (searches st3)),
             searches := searches st3 @
               [\<lparr>s_request = request,
                 s_strategy = strategy_of request,
                 s_abortSignal = abortCtrl st3,
                 s_indexPatternId = c_dataViewId c,
                 s_closure = c,
                 s_onNext = onNextHandler\<rparr>]\<rparr>)"

text \<open>\<^verbatim>\<open>refetchGrid\<close>, lines 189-194.\<close>
definition refetchGrid :: "string list \<Rightarrow> Closure \<Rightarrow> Hook \<Rightarrow> Hook" where
  "refetchGrid detectionsTimelineIds c st =
     wrappedLoadPage detectionsTimelineIds c 0
       (case refetch st of
          noop \<Rightarrow> st
        | AsyncSearch c' request onNextHandler \<Rightarrow> asyncSearch c' request onNextHandler st)"

text \<open>The cached response of the request's dialect.\<close>
definition cachedResponse :: "TimelineRequest \<Rightarrow> Hook \<Rightarrow> TimelineArgs option" where
  "cachedResponse request st =
     (if language request = eql then at_eqlResponse (activeTimeline st)
      else at_response (activeTimeline st))"

text \<open>The guard of lines 279-283.\<close>
definition pageChanged :: "Closure \<Rightarrow> Hook \<Rightarrow> bool" where
  "pageChanged c st \<longleftrightarrow>
     c_id c = TimelineId_active \<and> at_pageName (activeTimeline st) \<noteq> [] \<and>
     c_pageName c \<noteq> at_pageName (activeTimeline st)"

text \<open>The body of that \<^verbatim>\<open>if\<close>, lines 284-308.\<close>
definition resumeFromCache :: "Closure \<Rightarrow> TimelineRequest \<Rightarrow> bool \<Rightarrow> Hook \<Rightarrow> Hook" where
  "resumeFromCache c request onNextHandler st =
     (let st1 = st\<lparr>activeTimeline := (activeTimeline st)\<lparr>at_pageName := c_pageName c\<rparr>\<rparr>;
          st2 = abort st1;
          st3 = st2\<lparr>loading := Loaded\<rparr>;
          st4 = (if language request = eql
                 then st3\<lparr>prevTimelineRequest := at_eqlRequest (activeTimeline st3)\<rparr>
                 else st3\<lparr>prevTimelineRequest := at_request (activeTimeline st3)\<rparr>);
          st5 = st4\<lparr>refetch := AsyncSearch c request onNextHandler\<rparr>
      in case cachedResponse request st5 of
           Some resp \<Rightarrow> st5\<lparr>timelineResponse := resp\<rparr>
         | None \<Rightarrow> st5)"

text \<open>\<^verbatim>\<open>timelineSearch\<close>, lines 213-320, as one step: the assignment to
  \<^verbatim>\<open>refetch.current\<close> of line 319, which the source makes after the \<^verbatim>\<open>await\<close> of line
  318, is made in the same step as the dispatch.\<close>
definition timelineSearch :: "Closure \<Rightarrow> TimelineRequest option \<Rightarrow> bool \<Rightarrow> Hook \<Rightarrow> Hook" where
  "timelineSearch c request' onNextHandler st =
     (case request' of
        None \<Rightarrow> st
      | Some request \<Rightarrow>
          if c_pageName c = [] \<or> c_skip c then st
          else
            let st1 = (if pageChanged c st then resumeFromCache c request onNextHandler st
                       else st)
            in if pageChanged c st \<and> cachedResponse request st1 \<noteq> None then st1
               else (asyncSearch c request onNextHandler (abort (unsubscribe st1)))
                      \<lparr>refetch := AsyncSearch c request onNextHandler\<rparr>)"

text \<open>The subscriber's \<^verbatim>\<open>next\<close>, lines 240-269, for the call \<open>call\<close>; \<open>now\<close> is what
  \<^verbatim>\<open>Date.now()\<close> returns.\<close>
definition subscriber_next ::
  "GetInspectResponse \<Rightarrow> SearchCall \<Rightarrow> StrategyResponse \<Rightarrow> int \<Rightarrow> Hook \<Rightarrow> Hook" where
  "subscriber_next getInspectResponse call resp now st =
     (if \<not> isRunning resp then
        let c = s_closure call;
            request = s_request call;
            st1 = st\<lparr>tracking := tracking st @ [''success'']\<rparr>;
            st2 = st1\<lparr>loading := Loaded\<rparr>;
            prevResponse = timelineResponse st2;
            newTimelineResponse =
              prevResponse\<lparr>events := map node (edges resp),
                           inspect := getInspectResponse resp (inspect prevResponse),
                           pageInfo := r_pageInfo resp,
                           totalCount := r_totalCount resp,
                           refreshedAt := now\<rparr>;
            at = activeTimeline st2;
            st3 = (if c_id c = TimelineId_active
                   then st2\<lparr>activeTimeline :=
                          (if language request = eql
                           then at\<lparr>at_pageName := c_pageName c,
                                   at_eqlRequest := Some request,
                                   at_eqlResponse := Some newTimelineResponse\<rparr>
                           else at\<lparr>at_pageName := c_pageName c,
                                   at_request := Some request,
                                   at_response := Some newTimelineResponse\<rparr>)\<rparr>
                   else st2);
            st4 = (if s_onNext call
                   then st3\<lparr>onNextCalls := onNextCalls st3 @ [newTimelineResponse]\<rparr>
                   else st3);
            st5 = st4\<lparr>timelineResponse := newTimelineResponse\<rparr>
        in unsubscribe st5
      else st)"

text \<open>The subscriber's \<^verbatim>\<open>error\<close>, lines 270-275.\<close>
definition subscriber_error :: "string \<Rightarrow> Hook \<Rightarrow> Hook" where
  "subscriber_error msg st =
     (let st1 = st\<lparr>tracking := tracking st @
                   [if abortCtrl st \<in> set (aborted st) then ''aborted'' else ''error'']\<rparr>;
          st2 = st1\<lparr>loading := Loaded\<rparr>;
          st3 = st2\<lparr>shownErrors := shownErrors st2 @ [msg]\<rparr>
      in unsubscribe st3)"

text \<open>The effect of lines 334-428: the updater, with its calls of \<^verbatim>\<open>setActivePage\<close> and
  \<^verbatim>\<open>activeTimeline.setActivePage\<close>.\<close>
definition setTimelineRequestEffect ::
  "CreateFilter \<Rightarrow> UseTimelineEventsProps \<Rightarrow> Hook \<Rightarrow> Hook" where
  "setTimelineRequestEffect createFilter p st =
     (if length (p_indexNames p) = 0 then st
      else
        let prevRequest = timelineRequest st;
            activePage' = activePageState st;
            newActivePage' = newActivePage createFilter p activePage' prevRequest;
            st1 = (if activePage' \<noteq> newActivePage'
                   then (if id_of p = TimelineId_active
                         then st\<lparr>activePageState := newActivePage',
                                 activeTimeline :=
                                   (activeTimeline st)\<lparr>at_activePage := newActivePage'\<rparr>\<rparr>
                         else st\<lparr>activePageState := newActivePage'\<rparr>)
                   else st)
        in st1\<lparr>timelineRequest := deriveRequest createFilter p activePage' prevRequest\<rparr>)"

text \<open>\<^verbatim>\<open>timelineSearchHandler\<close>, lines 430-441.\<close>
definition timelineSearchHandler ::
  "Closure \<Rightarrow> TimerangeKind option \<Rightarrow> bool \<Rightarrow> Hook \<Rightarrow> Hook" where
  "timelineSearchHandler c timerangeKind onNextHandler st =
     (if c_id c \<noteq> TimelineId_active \<or> timerangeKind = Some absolute \<or>
         prevTimelineRequest st \<noteq> timelineRequest st
      then timelineSearch c (timelineRequest st) onNextHandler st
      else st)"

text \<open>The effect of lines 447-466.\<close>
definition filterClearEffect :: "UseTimelineEventsProps \<Rightarrow> Hook \<Rightarrow> Hook" where
  "filterClearEffect p st =
     (if isEmpty_filterQuery (p_filterQuery p)
      then st\<lparr>timelineResponse := emptyResponse (id_of p)\<rparr>
      else st)"

subsection \<open>Executions\<close>

text \<open>The three imports that are parameters of the model.\<close>
record Imports =
  createFilter :: CreateFilter
  getInspectResponse :: GetInspectResponse
  detectionsTimelineIds :: "string list"

text \<open>
  What can happen to a hook instance: React runs one of the two effects, or something
  calls one of the callbacks of the latest render (with the props and the page name of
  that render), or the search service delivers \<^verbatim>\<open>next\<close> or \<^verbatim>\<open>error\<close> to the subscriber
  of call \<open>i\<close>. A subscriber that was unsubscribed gets nothing.
\<close>
datatype Event =
    SetTimelineRequest UseTimelineEventsProps
  | FilterClear UseTimelineEventsProps
  | SearchHandler UseTimelineEventsProps string bool
  | LoadPage UseTimelineEventsProps string int
  | RefetchGrid UseTimelineEventsProps string
  | Next nat StrategyResponse int
  | Error nat string

fun step :: "Imports \<Rightarrow> Event \<Rightarrow> Hook \<Rightarrow> Hook" where
  "step im (SetTimelineRequest p) st = setTimelineRequestEffect (createFilter im) p st"
| "step im (FilterClear p) st = filterClearEffect p st"
| "step im (SearchHandler p pageName onNextHandler) st =
     timelineSearchHandler (closure_of p pageName st) (p_timerangeKind p) onNextHandler st"
| "step im (LoadPage p pageName n) st =
     wrappedLoadPage (detectionsTimelineIds im) (closure_of p pageName st) n st"
| "step im (RefetchGrid p pageName) st =
     refetchGrid (detectionsTimelineIds im) (closure_of p pageName st) st"
| "step im (Next i resp now) st =
     (if i < length (searches st) \<and> OfSearch i \<notin> set (unsubscribed st)
      then subscriber_next (getInspectResponse im) (searches st ! i) resp now st
      else st)"
| "step im (Error i msg) st =
     (if i < length (searches st) \<and> OfSearch i \<notin> set (unsubscribed st)
      then subscriber_error msg st
      else st)"

fun run :: "Imports \<Rightarrow> Event list \<Rightarrow> Hook \<Rightarrow> Hook" where
  "run im [] st = st"
| "run im (e # es) st = run im es (step im e st)"

text \<open>The fields of the request the hook holds.\<close>
definition requestedFields :: "Hook \<Rightarrow> string set" where
  "requestedFields st =
     (case timelineRequest st of None \<Rightarrow> {} | Some r \<Rightarrow> set (fieldRequested r))"

text \<open>A state in which every subscription that nobody has unsubscribed is the one the
  ref holds.\<close>
definition onlyCurrentActive :: "Hook \<Rightarrow> bool" where
  "onlyCurrentActive st \<longleftrightarrow>
     list_all (\<lambda>i. searchSubscription st = OfSearch i) (activeSubscriptions st)"

text \<open>A state in which every search in flight (every active subscription) is the one the
  refs hold: its subscription is in \<^verbatim>\<open>searchSubscription$\<close> and its abort signal belongs
  to the controller in \<^verbatim>\<open>abortCtrl\<close>.\<close>
definition inFlightTracked :: "Hook \<Rightarrow> bool" where
  "inFlightTracked st \<longleftrightarrow>
     list_all
       (\<lambda>i. searchSubscription st = OfSearch i \<and>
            s_abortSignal (searches st ! i) = abortCtrl st)
       (activeSubscriptions st)"

definition isRefetchGrid :: "Event \<Rightarrow> bool" where
  "isRefetchGrid e = (case e of RefetchGrid p pageName \<Rightarrow> True | _ \<Rightarrow> False)"

subsection \<open>Concrete inputs\<close>

text \<open>A hook of an events table on the hosts page, with both dates given.\<close>
definition example_props :: UseTimelineEventsProps where
  "example_props =
     \<lparr>p_dataViewId = Some ''security-solution-default'',
      p_endDate = Some ''2024-01-02T00:00:00.000Z'',
      p_eqlOptions = None,
      p_fields = [''@timestamp'', ''host.name''],
      p_filterQuery = Some (FilterString ''host.name: *''),
      p_id = Some ''hosts-page-events'',
      p_indexNames = [''logs-*''],
      p_language = None,
      p_limit = 25,
      p_runtimeMappings = fmempty,
      p_skip = None,
      p_sort = None,
      p_startDate = Some ''2024-01-01T00:00:00.000Z'',
      p_timerangeKind = None\<rparr>"

text \<open>The props of the active timeline.\<close>
definition example_timeline_props :: UseTimelineEventsProps where
  "example_timeline_props = example_props\<lparr>p_id := Some TimelineId_active\<rparr>"

text \<open>The same props with no dates.\<close>
definition example_props_no_dates :: UseTimelineEventsProps where
  "example_props_no_dates = example_props\<lparr>p_startDate := None, p_endDate := None\<rparr>"

definition example_request :: TimelineRequest where
  "example_request =
     \<lparr>defaultIndex = [''logs-*''],
      factoryQueryType = TimelineEventsQueries_all,
      fieldRequested = [''@timestamp'', ''host.name''],
      fields' = [''@timestamp'', ''host.name''],
      filterQuery = Some ''host.name: *'',
      pagination = \<lparr>activePage = 0, querySize = 25\<rparr>,
      language = kuery,
      runtimeMappings = fmempty,
      sort' = initSortDefault,
      timerange =
        Some \<lparr>interval = ''12h'', from' = ''2024-01-01T00:00:00.000Z'',
              to' = ''2024-01-02T00:00:00.000Z''\<rparr>,
      eqlKeys = emptyEqlOptions\<rparr>"

definition example_response :: TimelineArgs where
  "example_response =
     \<lparr>events = [\<lparr>item_id = ''event-1''\<rparr>], id' = TimelineId_active,
      inspect = \<lparr>dsl = [''dsl''], response = [''raw'']\<rparr>,
      pageInfo = \<lparr>activePage = 0, querySize = 25\<rparr>, totalCount = 1,
      refreshedAt = 1700000000000\<rparr>"

text \<open>The shared object after the timeline was shown on the alerts page.\<close>
definition example_activeTimeline :: ActiveTimeline where
  "example_activeTimeline =
     \<lparr>at_activePage = 0, at_pageName = ''alerts'',
      at_request = Some example_request, at_response = Some example_response,
      at_eqlRequest = None, at_eqlResponse = None\<rparr>"

text \<open>Callbacks of a render of the active timeline on the hosts page.\<close>
definition example_closure :: Closure where
  "example_closure =
     \<lparr>c_pageName = ''hosts'', c_skip = False, c_id = TimelineId_active,
      c_activePage = 0, c_dataViewId = Some ''security-solution-default''\<rparr>"

text \<open>An instance of the imports to run the model with: a filter string is passed on, an
  undefined filter stays undefined.\<close>
definition example_createFilter :: CreateFilter where
  "example_createFilter v =
     (case v of None \<Rightarrow> None
      | Some (FilterString s) \<Rightarrow> Some s
      | Some (FilterESQuery q) \<Rightarrow> Some (concat (map fst q)))"

definition example_imports :: Imports where
  "example_imports =
     \<lparr>createFilter = example_createFilter,
      getInspectResponse = (\<lambda>resp prevInspect. prevInspect),
      detectionsTimelineIds = []\<rparr>"

text \<open>The active timeline on the alerts page: its request is derived and the handler has
  dispatched it; no response has arrived.\<close>
definition example_timeline_searching :: Hook where
  "example_timeline_searching =
     run example_imports
       [SetTimelineRequest example_timeline_props,
        SearchHandler example_timeline_props ''alerts'' False]
       (initHook example_timeline_props example_activeTimeline)"

text \<open>The same, after \<^verbatim>\<open>refetchGrid\<close> was called before any response.\<close>
definition example_timeline_refetched :: Hook where
  "example_timeline_refetched =
     run example_imports [RefetchGrid example_timeline_props ''alerts'']
       example_timeline_searching"

text \<open>The active timeline with an EQL request: the shared object holds a response of an
  EQL request and none of another.\<close>
definition example_timeline_searching_eql :: Hook where
  "example_timeline_searching_eql =
     example_timeline_searching
       \<lparr>activeTimeline :=
          example_activeTimeline
            \<lparr>at_request := None, at_response := None,
             at_eqlRequest := Some (example_request\<lparr>language := eql\<rparr>),
             at_eqlResponse := Some example_response\<rparr>\<rparr>"

text \<open>The events table of the hosts page after its first search, when page 3 is loaded.\<close>
definition example_page_3_loaded :: Hook where
  "example_page_3_loaded =
     run example_imports
       [SetTimelineRequest example_props, SearchHandler example_props ''hosts'' False,
        LoadPage example_props ''hosts'' 3]
       (initHook example_props example_activeTimeline)"

text \<open>Props of the active timeline whose EQL options have the key \<^verbatim>\<open>tiebreakerField\<close>
  with the value \<^verbatim>\<open>undefined\<close>.\<close>
definition example_props_undefined_key :: UseTimelineEventsProps where
  "example_props_undefined_key =
     example_timeline_props
       \<lparr>p_eqlOptions := Some (emptyEqlOptions\<lparr>tiebreakerField := Undefined\<rparr>)\<rparr>"

section \<open>Properties\<close>

subsection \<open>What each operation leaves alone\<close>

lemma abort_simps:
  "searches (abort st) = searches st"
  "controllers (abort st) = controllers st"
  "activeTimeline (abort st) = activeTimeline st"
  "unsubscribed (abort st) = unsubscribed st"
  "searchSubscription (abort st) = searchSubscription st"
  "aborted (abort st) = List.insert (abortCtrl st) (aborted st)"
  "abortCtrl (abort st) = abortCtrl st"
  "timelineResponse (abort st) = timelineResponse st"
  by (simp_all add: abort_def)

lemma unsubscribe_simps:
  "searches (unsubscribe st) = searches st"
  "controllers (unsubscribe st) = controllers st"
  "activeTimeline (unsubscribe st) = activeTimeline st"
  "unsubscribed (unsubscribe st) = List.insert (searchSubscription st) (unsubscribed st)"
  "searchSubscription (unsubscribe st) = searchSubscription st"
  "aborted (unsubscribe st) = aborted st"
  "abortCtrl (unsubscribe st) = abortCtrl st"
  "timelineResponse (unsubscribe st) = timelineResponse st"
  by (simp_all add: unsubscribe_def)

lemma resumeFromCache_simps:
  "searches (resumeFromCache c r h st) = searches st"
  "controllers (resumeFromCache c r h st) = controllers st"
  "unsubscribed (resumeFromCache c r h st) = unsubscribed st"
  "searchSubscription (resumeFromCache c r h st) = searchSubscription st"
  "abortCtrl (resumeFromCache c r h st) = abortCtrl st"
  "aborted (resumeFromCache c r h st) = List.insert (abortCtrl st) (aborted st)"
  "loading (resumeFromCache c r h st) = Loaded"
  by (simp_all add: resumeFromCache_def Let_def abort_def split: option.splits)

lemma resumeFromCache_cachedResponse:
  "cachedResponse r (resumeFromCache c r' h st) = cachedResponse r st"
  by (simp add: resumeFromCache_def Let_def abort_def cachedResponse_def split: option.splits)

lemma asyncSearch_searches:
  "searches (asyncSearch c r h st) = searches st @
     [\<lparr>s_request = r, s_strategy = strategy_of r, s_abortSignal = controllers st,
       s_indexPatternId = c_dataViewId c, s_closure = c, s_onNext = h\<rparr>]"
  by (simp add: asyncSearch_def Let_def)

lemma asyncSearch_simps:
  "timelineRequest (asyncSearch c r h st) = timelineRequest st"
  "unsubscribed (asyncSearch c r h st) = unsubscribed st"
  "searchSubscription (asyncSearch c r h st) = OfSearch (length (searches st))"
  "abortCtrl (asyncSearch c r h st) = controllers st"
  "aborted (asyncSearch c r h st) = aborted st"
  "prevTimelineRequest (asyncSearch c r h st) = Some r"
  "loading (asyncSearch c r h st) = (if c_activePage c = 0 then Loading else LoadingMore)"
  by (simp_all add: asyncSearch_def Let_def)

lemma effect_simps:
  "searches (setTimelineRequestEffect cf p st) = searches st"
  "unsubscribed (setTimelineRequestEffect cf p st) = unsubscribed st"
  "searches (filterClearEffect p st) = searches st"
  "unsubscribed (filterClearEffect p st) = unsubscribed st"
  "timelineRequest (filterClearEffect p st) = timelineRequest st"
  by (simp_all add: setTimelineRequestEffect_def filterClearEffect_def Let_def)

lemma wrappedLoadPage_simps:
  "searches (wrappedLoadPage d c n st) = searches st"
  "unsubscribed (wrappedLoadPage d c n st) = unsubscribed st"
  "aborted (wrappedLoadPage d c n st) = aborted st"
  "timelineRequest (wrappedLoadPage d c n st) = timelineRequest st"
  "activePageState (wrappedLoadPage d c n st) = n"
  by (simp_all add: wrappedLoadPage_def clearSignalsState_def Let_def)

lemma subscriber_simps:
  "searches (subscriber_next g call resp now st) = searches st"
  "timelineRequest (subscriber_next g call resp now st) = timelineRequest st"
  "searches (subscriber_error msg st) = searches st"
  "timelineRequest (subscriber_error msg st) = timelineRequest st"
  by (simp_all add: subscriber_next_def subscriber_error_def unsubscribe_def Let_def)

text \<open>The calls of the search service after \<^verbatim>\<open>timelineSearch\<close>: one more, unless the
  call was ignored or the cached response was taken.\<close>
lemma timelineSearch_searches:
  "searches (timelineSearch c req h st) =
     (case req of
        None \<Rightarrow> searches st
      | Some r \<Rightarrow>
          if c_pageName c = [] \<or> c_skip c \<or> (pageChanged c st \<and> cachedResponse r st \<noteq> None)
          then searches st
          else searches st @
            [\<lparr>s_request = r, s_strategy = strategy_of r, s_abortSignal = controllers st,
              s_indexPatternId = c_dataViewId c, s_closure = c, s_onNext = h\<rparr>])"
proof (cases req)
  case None
  then show ?thesis by (simp add: timelineSearch_def)
next
  case (Some r)
  show ?thesis
  proof (cases "c_pageName c = [] \<or> c_skip c")
    case True
    with Some show ?thesis by (auto simp: timelineSearch_def)
  next
    case False
    show ?thesis
    proof (cases "pageChanged c st")
      case True
      with Some False show ?thesis
        by (simp add: timelineSearch_def resumeFromCache_cachedResponse resumeFromCache_simps
            asyncSearch_searches abort_simps unsubscribe_simps)
    next
      case unchanged: False
      with Some False show ?thesis
        by (simp add: timelineSearch_def asyncSearch_searches abort_simps unsubscribe_simps)
    qed
  qed
qed

lemma refetchGrid_searches:
  "searches (refetchGrid d c st) =
     (case refetch st of
        noop \<Rightarrow> searches st
      | AsyncSearch c' r h \<Rightarrow> searches st @
          [\<lparr>s_request = r, s_strategy = strategy_of r, s_abortSignal = controllers st,
            s_indexPatternId = c_dataViewId c', s_closure = c', s_onNext = h\<rparr>])"
  by (simp add: refetchGrid_def wrappedLoadPage_simps asyncSearch_searches split: Refetch.splits)

lemma timelineSearch_timelineRequest:
  "timelineRequest (timelineSearch c req h st) = timelineRequest st"
  by (simp add: timelineSearch_def asyncSearch_simps resumeFromCache_def abort_def
      unsubscribe_def Let_def split: option.splits)

lemma step_timelineRequest:
  "timelineRequest (step im e st) =
     (case e of
        SetTimelineRequest p \<Rightarrow> timelineRequest (setTimelineRequestEffect (createFilter im) p st)
      | _ \<Rightarrow> timelineRequest st)"
  by (cases e)
    (simp_all add: effect_simps wrappedLoadPage_simps subscriber_simps
      timelineSearch_timelineRequest timelineSearchHandler_def refetchGrid_def asyncSearch_simps
      split: Refetch.splits)

lemma run_append: "run im (es @ es') st = run im es' (run im es st)"
  by (induction es arbitrary: st) simp_all

text \<open>The definitions, for running the model on the concrete inputs.\<close>
lemmas hook_defs =
  value_of_def initHook_def setTimelineRequestEffect_def filterClearEffect_def timelineSearchHandler_def
  timelineSearch_def resumeFromCache_def asyncSearch_def wrappedLoadPage_def refetchGrid_def
  clearSignalsState_def subscriber_next_def subscriber_error_def abort_def unsubscribe_def
  closure_of_def pageChanged_def cachedResponse_def strategy_of_def
  deriveRequest_def currentRequest_def newActivePage_def finalFieldRequest_def
  prevSearchParameters_def currentSearchParameters_def timerange_of_def deStructureEqlOptions_def
  isEmpty_string_def isEmpty_value_def isEmpty_filterQuery_def
  id_of_def language_of_def sort_of_def skip_of_def ID_def TimelineId_active_def
  emptyResponse_def emptyEqlOptions_def initSortDefault_def activeSubscriptions_def

lemmas example_defs =
  example_props_def example_timeline_props_def example_props_no_dates_def
  example_timeline_searching_def example_timeline_refetched_def example_props_undefined_key_def
  example_timeline_searching_eql_def example_page_3_loaded_def example_request_def example_response_def
  example_activeTimeline_def example_closure_def example_createFilter_def example_imports_def

subsection \<open>The request's fields\<close>

lemma set_finalFieldRequest:
  "set (finalFieldRequest p prev) =
     (case prev of None \<Rightarrow> {} | Some r \<Rightarrow> set (fieldRequested r)) \<union> set (p_fields p)"
  by (cases prev) (auto simp: finalFieldRequest_def Let_def filter_empty_conv)

lemma deriveRequest_fieldRequested:
  "\<exists>r. deriveRequest cf p a prev = Some r \<and> fieldRequested r = finalFieldRequest p prev"
  by (cases "prev = Some (currentRequest cf p a prev)")
     (auto simp: deriveRequest_def currentRequest_def)

lemma effect_timelineRequest:
  "timelineRequest (setTimelineRequestEffect cf p st) =
     (if p_indexNames p = [] then timelineRequest st
      else deriveRequest cf p (activePageState st) (timelineRequest st))"
  by (simp add: setTimelineRequestEffect_def Let_def)

lemma effect_requestedFields:
  "requestedFields (setTimelineRequestEffect cf p st) =
     (if p_indexNames p = [] then requestedFields st
      else requestedFields st \<union> set (p_fields p))"
proof (cases "p_indexNames p = []")
  case True
  then show ?thesis by (simp add: requestedFields_def effect_timelineRequest)
next
  case False
  obtain r where r: "deriveRequest cf p (activePageState st) (timelineRequest st) = Some r"
      "fieldRequested r = finalFieldRequest p (timelineRequest st)"
    using deriveRequest_fieldRequested by blast
  with False show ?thesis
    by (simp add: requestedFields_def effect_timelineRequest set_finalFieldRequest)
qed

lemma step_requestedFields: "requestedFields st \<subseteq> requestedFields (step im e st)"
proof (cases e)
  case (SetTimelineRequest p)
  then show ?thesis by (simp add: effect_requestedFields)
qed (simp_all add: requestedFields_def step_timelineRequest del: step.simps)

lemma run_requestedFields: "requestedFields st \<subseteq> requestedFields (run im es st)"
proof (induction es arbitrary: st)
  case Nil
  then show ?case by simp
next
  case (Cons e es)
  have "requestedFields st \<subseteq> requestedFields (step im e st)" by (rule step_requestedFields)
  also have "\<dots> \<subseteq> requestedFields (run im es (step im e st))" by (rule Cons.IH)
  finally show ?case by simp
qed

text \<open>
  C2. Take any state \<open>st\<close> of a hook instance, let anything happen to it (\<open>es\<close>), and
  let the effect then derive a request from props \<open>p\<close> with some index name (without one
  the effect derives nothing). The derived request's \<^verbatim>\<open>fieldRequested\<close> contains every
  field of the request that \<open>st\<close> held and every field of \<open>p\<close>: no field is ever removed.
\<close>
theorem fieldRequested_never_shrinks:
  assumes "p_indexNames p \<noteq> []"
  shows "requestedFields st \<union> set (p_fields p)
           \<subseteq> requestedFields (run im (es @ [SetTimelineRequest p]) st)"
proof -
  have "requestedFields (run im (es @ [SetTimelineRequest p]) st) =
          requestedFields (run im es st) \<union> set (p_fields p)"
    using assms by (simp add: run_append effect_requestedFields)
  moreover have "requestedFields st \<subseteq> requestedFields (run im es st)"
    by (rule run_requestedFields)
  ultimately show ?thesis by blast
qed

theorem fieldRequested_never_shrinks_witness:
  "p_indexNames (example_props\<lparr>p_fields := [''user.name'']\<rparr>) \<noteq> [] \<and>
   {''@timestamp'', ''host.name'', ''user.name''} \<subseteq>
     requestedFields
       (run example_imports
         ([LoadPage example_props ''hosts'' 1] @
          [SetTimelineRequest (example_props\<lparr>p_fields := [''user.name'']\<rparr>)])
         (step example_imports (SetTimelineRequest example_props)
            (initHook example_props example_activeTimeline)))"
proof -
  let ?p = "example_props\<lparr>p_fields := [''user.name'']\<rparr>"
  let ?st = "step example_imports (SetTimelineRequest example_props)
            (initHook example_props example_activeTimeline)"
  have h: "p_indexNames ?p \<noteq> []" by (simp add: example_props_def)
  have init: "requestedFields (initHook p at) = {}" for p at
    by (simp add: requestedFields_def initHook_def)
  have "requestedFields ?st = {''@timestamp'', ''host.name''}"
    by (auto simp add: effect_requestedFields init example_props_def)
  moreover have "set (p_fields ?p) = {''user.name''}" by simp
  ultimately show ?thesis
    using h fieldRequested_never_shrinks
      [OF h, of ?st example_imports "[LoadPage example_props ''hosts'' 1]"]
    by simp
qed

subsection \<open>The subscriber's error handler\<close>


subsection \<open>Clearing the filter\<close>

text \<open>
  C6. Whatever the state was, when the filter prop is empty the effect of lines 447-466
  sets the response to the empty one: totalCount - 1, no events, pageInfo with active
  page 0 and query size 0, an empty inspect log, and refreshedAt 0.
\<close>
theorem filterClearEffect_resets_response:
  assumes "isEmpty_filterQuery (p_filterQuery p)"
  shows "totalCount (timelineResponse (filterClearEffect p st)) = - 1 \<and>
    events (timelineResponse (filterClearEffect p st)) = [] \<and>
    pageInfo (timelineResponse (filterClearEffect p st)) = \<lparr>activePage = 0, querySize = 0\<rparr> \<and>
    inspect (timelineResponse (filterClearEffect p st)) = \<lparr>dsl = [], response = []\<rparr> \<and>
    refreshedAt (timelineResponse (filterClearEffect p st)) = 0"
  using assms by (simp add: filterClearEffect_def emptyResponse_def)

theorem filterClearEffect_resets_response_witness:
  "isEmpty_filterQuery
     (p_filterQuery (example_props\<lparr>p_filterQuery := Some (FilterString [])\<rparr>)) \<and>
   totalCount example_response = 1 \<and>
   totalCount (timelineResponse
     (filterClearEffect (example_props\<lparr>p_filterQuery := Some (FilterString [])\<rparr>)
        ((initHook example_props example_activeTimeline)
           \<lparr>timelineResponse := example_response\<rparr>))) = - 1 \<and>
   events (timelineResponse
     (filterClearEffect (example_props\<lparr>p_filterQuery := Some (FilterString [])\<rparr>)
        ((initHook example_props example_activeTimeline)
           \<lparr>timelineResponse := example_response\<rparr>))) = []"
proof -
  let ?p = "example_props\<lparr>p_filterQuery := Some (FilterString [])\<rparr>"
  have h: "isEmpty_filterQuery (p_filterQuery ?p)" by (simp add: isEmpty_filterQuery_def)
  have "totalCount example_response = 1" by (simp add: example_response_def)
  then show ?thesis
    using h filterClearEffect_resets_response [OF h,
        of "(initHook example_props example_activeTimeline)
              \<lparr>timelineResponse := example_response\<rparr>"]
    by simp
qed

subsection \<open>Calls that are ignored\<close>

text \<open>
  C9. When the request is null, or the page name is the empty string, or the skip flag is
  set, \<^verbatim>\<open>timelineSearch\<close> changes nothing at all: no call of the search service, and the
  loading state, the response, the previous request and the shared object stay as they
  were.
\<close>
theorem timelineSearch_ignored:
  assumes "request = None \<or> c_pageName c = [] \<or> c_skip c"
  shows "timelineSearch c request onNextHandler st = st"
  using assms by (auto simp: timelineSearch_def split: option.splits)

theorem timelineSearch_ignored_witness:
  "(Some example_request = None \<or> c_pageName (example_closure\<lparr>c_skip := True\<rparr>) = [] \<or>
      c_skip (example_closure\<lparr>c_skip := True\<rparr>)) \<and>
   timelineSearch (example_closure\<lparr>c_skip := True\<rparr>) (Some example_request) False
      (initHook example_timeline_props example_activeTimeline) =
     initHook example_timeline_props example_activeTimeline"
proof -
  let ?c = "example_closure\<lparr>c_skip := True\<rparr>"
  have h: "Some example_request = None \<or> c_pageName ?c = [] \<or> c_skip ?c" by simp
  show ?thesis
    using h timelineSearch_ignored [OF h, of False "initHook example_timeline_props example_activeTimeline"]
    by blast
qed

subsection \<open>The strategy of a call\<close>

lemma step_searches_all:
  assumes "list_all P (searches st)"
    and "\<And>c r h n. P \<lparr>s_request = r, s_strategy = strategy_of r, s_abortSignal = n,
            s_indexPatternId = c_dataViewId c, s_closure = c, s_onNext = h\<rparr>"
  shows "list_all P (searches (step im e st))"
proof (cases e)
  case (SearchHandler p pageName h)
  with assms show ?thesis
    by (simp add: timelineSearchHandler_def timelineSearch_searches split: option.splits)
next
  case (RefetchGrid p pageName)
  with assms show ?thesis
    by (simp add: refetchGrid_searches split: Refetch.splits)
qed (use assms in \<open>simp_all add: effect_simps wrappedLoadPage_simps subscriber_simps\<close>)

lemma run_searches_all:
  assumes "\<And>c r h n. P \<lparr>s_request = r, s_strategy = strategy_of r, s_abortSignal = n,
            s_indexPatternId = c_dataViewId c, s_closure = c, s_onNext = h\<rparr>"
  shows "list_all P (searches st) \<Longrightarrow> list_all P (searches (run im es st))"
  by (induction es arbitrary: st) (simp_all add: step_searches_all assms)

text \<open>
  C7. In every execution of a hook instance, every call of the search service has the
  strategy \<^verbatim>\<open>timelineEqlSearchStrategy\<close> exactly when the language of its request is
  \<^verbatim>\<open>eql\<close>, and \<^verbatim>\<open>timelineSearchStrategy\<close> for every other language.
\<close>
theorem strategy_follows_language:
  "list_all (\<lambda>call.
       s_strategy call =
         (if language (s_request call) = eql then ''timelineEqlSearchStrategy''
          else ''timelineSearchStrategy'') \<and>
       (s_strategy call = ''timelineEqlSearchStrategy'') = (language (s_request call) = eql))
     (searches (run im es (initHook p at)))"
  by (rule run_searches_all) (simp_all add: strategy_of_def initHook_def)

theorem strategy_follows_language_witness:
  "list_all (\<lambda>call.
       s_strategy call =
         (if language (s_request call) = eql then ''timelineEqlSearchStrategy''
          else ''timelineSearchStrategy'') \<and>
       (s_strategy call = ''timelineEqlSearchStrategy'') = (language (s_request call) = eql))
     (searches (run example_imports
        [SetTimelineRequest example_props, SearchHandler example_props ''hosts'' False,
         SetTimelineRequest (example_props\<lparr>p_language := Some eql\<rparr>),
         SearchHandler (example_props\<lparr>p_language := Some eql\<rparr>) ''hosts'' False]
        (initHook example_props example_activeTimeline))) \<and>
   map (\<lambda>call. (language (s_request call), s_strategy call))
     (searches (run example_imports
        [SetTimelineRequest example_props, SearchHandler example_props ''hosts'' False,
         SetTimelineRequest (example_props\<lparr>p_language := Some eql\<rparr>),
         SearchHandler (example_props\<lparr>p_language := Some eql\<rparr>) ''hosts'' False]
        (initHook example_props example_activeTimeline)))
   = [(kuery, ''timelineSearchStrategy''), (eql, ''timelineEqlSearchStrategy'')]"
proof -
  let ?es = "[SetTimelineRequest example_props, SearchHandler example_props ''hosts'' False,
         SetTimelineRequest (example_props\<lparr>p_language := Some eql\<rparr>),
         SearchHandler (example_props\<lparr>p_language := Some eql\<rparr>) ''hosts'' False]"
  have "map (\<lambda>call. (language (s_request call), s_strategy call))
     (searches (run example_imports ?es (initHook example_props example_activeTimeline)))
   = [(kuery, ''timelineSearchStrategy''), (eql, ''timelineEqlSearchStrategy'')]"
    by (simp add: hook_defs example_defs Let_def)
  with strategy_follows_language [of example_imports ?es example_props example_activeTimeline]
  show ?thesis by blast
qed

subsection \<open>The active page of the derived request\<close>

text \<open>The derived request's page is what line 365 computes.\<close>
lemma deriveRequest_activePage:
  "\<exists>r. deriveRequest cf p a prev = Some r \<and>
       activePage (pagination r) = newActivePage cf p a prev"
  by (cases "prev = Some (currentRequest cf p a prev)")
     (auto simp: deriveRequest_def currentRequest_def)

text \<open>The object built from the previous request always has the key \<^verbatim>\<open>timerange\<close>
  (line 346); the object built from the props has it only when both dates are given
  (lines 351-354, 361). Without both dates the two are never deep-equal.\<close>
lemma newActivePage_without_dates:
  assumes "timerange_of p = None"
  shows "newActivePage cf p a prev = 0"
proof -
  from assms have "sp_timerange (currentSearchParameters cf p) = None"
    by (simp add: currentSearchParameters_def)
  moreover have "sp_timerange (prevSearchParameters prev) \<noteq> None"
    by (simp add: prevSearchParameters_def)
  ultimately have "prevSearchParameters prev \<noteq> currentSearchParameters cf p" by metis
  then show ?thesis by (simp add: newActivePage_def)
qed

text \<open>With both dates given the page is carried over: the request is derived, page 2 is
  loaded, and the request derived again from the same props asks for page 2.\<close>
lemma page_kept_with_dates:
  "map_option (\<lambda>r. activePage (pagination r))
     (timelineRequest
       (run example_imports
          [SetTimelineRequest example_props, LoadPage example_props ''hosts'' 2,
           SetTimelineRequest example_props]
          (initHook example_props at))) = Some 2"
  by (simp add: hook_defs example_defs Let_def)

text \<open>
  C1. The claim: when the search-relevant parameters are those of the previous request,
  the derived request keeps the active page. The code at props without dates: the
  request is derived, page 2 is loaded (the hook's active page is 2), and the effect runs
  again with the very same props. The previous request holds exactly the index names,
  filter, page size, sort, time range (none), runtime mappings and EQL keys (none) of the
  props, yet the hook's active page and the page of the derived request are 0.
\<close>
theorem setTimelineRequest_resets_page_without_dates:
  "activePageState
     (run im [SetTimelineRequest example_props_no_dates,
              LoadPage example_props_no_dates ''hosts'' 2]
        (initHook example_props_no_dates at)) = 2 \<and>
   map_option
     (\<lambda>r. (defaultIndex r, filterQuery r, querySize (pagination r), sort' r, timerange r,
           runtimeMappings r, eqlKeys r))
     (timelineRequest
       (run im [SetTimelineRequest example_props_no_dates,
                LoadPage example_props_no_dates ''hosts'' 2]
          (initHook example_props_no_dates at))) =
     Some (p_indexNames example_props_no_dates,
           createFilter im (p_filterQuery example_props_no_dates),
           p_limit example_props_no_dates, sort_of example_props_no_dates,
           timerange_of example_props_no_dates, p_runtimeMappings example_props_no_dates,
           emptyEqlOptions) \<and>
   activePageState
     (run im [SetTimelineRequest example_props_no_dates,
              LoadPage example_props_no_dates ''hosts'' 2,
              SetTimelineRequest example_props_no_dates]
        (initHook example_props_no_dates at)) = 0 \<and>
   map_option (\<lambda>r. activePage (pagination r))
     (timelineRequest
       (run im [SetTimelineRequest example_props_no_dates,
                LoadPage example_props_no_dates ''hosts'' 2,
                SetTimelineRequest example_props_no_dates]
          (initHook example_props_no_dates at))) = Some 0"
  by (simp add: hook_defs example_defs Let_def)

subsection \<open>Dispatching a search\<close>

lemma timelineSearch_dispatch:
  assumes "c_pageName c \<noteq> []" "\<not> c_skip c"
    and "\<not> (pageChanged c st \<and> cachedResponse r st \<noteq> None)"
  shows "timelineSearch c (Some r) h st =
     (asyncSearch c r h
        (abort (unsubscribe (if pageChanged c st then resumeFromCache c r h st else st))))
       \<lparr>refetch := AsyncSearch c r h\<rparr>"
  using assms by (simp add: timelineSearch_def resumeFromCache_cachedResponse)

lemma timelineSearch_resume:
  assumes "c_pageName c \<noteq> []" "\<not> c_skip c" "pageChanged c st" "cachedResponse r st \<noteq> None"
  shows "timelineSearch c (Some r) h st = resumeFromCache c r h st"
  using assms by (simp add: timelineSearch_def resumeFromCache_cachedResponse)


text \<open>
  C8, the claim as stated fails. A hook of the hosts page derives its request (page 0)
  and searches; page 3 is loaded; the search handler of the next render still holds the
  request for page 0, and \<^verbatim>\<open>activePage\<close> is 3 (the updater of line 339 gives the request
  for page 3 to the render after that one only). It calls the search service a second
  time with the request for page 0, and the loading state is \<^verbatim>\<open>loadingMore\<close>.
\<close>
theorem loadingMore_for_request_of_page_0:
  "length (searches (run example_imports
      [SetTimelineRequest example_props, SearchHandler example_props ''hosts'' False,
       LoadPage example_props ''hosts'' 3, SearchHandler example_props ''hosts'' False]
      (initHook example_props example_activeTimeline))) = 2 \<and>
   activePage (pagination (s_request (last (searches (run example_imports
      [SetTimelineRequest example_props, SearchHandler example_props ''hosts'' False,
       LoadPage example_props ''hosts'' 3, SearchHandler example_props ''hosts'' False]
      (initHook example_props example_activeTimeline)))))) = 0 \<and>
   loading (run example_imports
      [SetTimelineRequest example_props, SearchHandler example_props ''hosts'' False,
       LoadPage example_props ''hosts'' 3, SearchHandler example_props ''hosts'' False]
      (initHook example_props example_activeTimeline)) = LoadingMore"
  by (simp add: hook_defs example_defs Let_def)

lemma timelineSearch_loading:
  assumes "length (searches (timelineSearch c request onNextHandler st)) \<noteq> length (searches st)"
  shows "loading (timelineSearch c request onNextHandler st) =
           (if c_activePage c = 0 then Loading else LoadingMore)"
proof -
  from assms obtain r where r: "request = Some r"
    by (cases request) (simp_all add: timelineSearch_def)
  from assms r have guard: "c_pageName c \<noteq> []" "\<not> c_skip c"
      "\<not> (pageChanged c st \<and> cachedResponse r st \<noteq> None)"
    by (auto simp: timelineSearch_searches split: if_splits)
  show ?thesis
    unfolding r timelineSearch_dispatch [OF guard]
    by (simp add: asyncSearch_simps)
qed

lemma loading_simps:
  "loading (wrappedLoadPage d c n st) = loading st"
  "loading (setTimelineRequestEffect cf p st) = loading st"
  by (simp_all add: wrappedLoadPage_def clearSignalsState_def setTimelineRequestEffect_def Let_def)

text \<open>
  C8, amended. Whenever an event makes the hook call the search service (the search
  handler or \<^verbatim>\<open>refetchGrid\<close>; no other event does), the loading state is set to
  \<^verbatim>\<open>loading\<close> if the active page that the dispatching \<^verbatim>\<open>asyncSearch\<close> captured is 0, and
  to \<^verbatim>\<open>loadingMore\<close> otherwise, whatever page the request asks for. For the search
  handler the captured page is the hook's \<^verbatim>\<open>activePage\<close> state at the call.
\<close>
theorem loading_follows_captured_page:
  assumes "length (searches (step im e st)) \<noteq> length (searches st)"
  shows "loading (step im e st) =
           (if c_activePage (s_closure (last (searches (step im e st)))) = 0
            then Loading else LoadingMore) \<and>
         (case e of
            SearchHandler p pageName onNextHandler \<Rightarrow>
              c_activePage (s_closure (last (searches (step im e st)))) = activePageState st
          | _ \<Rightarrow> True)"
proof (cases e)
  case (SearchHandler p pageName h)
  let ?c = "closure_of p pageName st"
  from assms SearchHandler
  have call: "step im e st = timelineSearch ?c (timelineRequest st) h st"
    by (auto simp: timelineSearchHandler_def split: if_splits)
  with assms have d: "length (searches (timelineSearch ?c (timelineRequest st) h st))
      \<noteq> length (searches st)" by simp
  then have "s_closure (last (searches (timelineSearch ?c (timelineRequest st) h st))) = ?c"
    by (auto simp: timelineSearch_searches split: option.splits if_splits)
  with timelineSearch_loading [OF d] call SearchHandler show ?thesis
    by (simp add: closure_of_def)
next
  case (RefetchGrid p pageName)
  from assms RefetchGrid obtain c' r h where rf: "refetch st = AsyncSearch c' r h"
    by (cases "refetch st") (simp_all add: refetchGrid_searches)
  have "step im e st =
          wrappedLoadPage (detectionsTimelineIds im) (closure_of p pageName st) 0
            (asyncSearch c' r h st)"
    using RefetchGrid rf by (simp add: refetchGrid_def)
  then show ?thesis
    using RefetchGrid
    by (simp add: wrappedLoadPage_simps loading_simps asyncSearch_simps asyncSearch_searches)
qed (use assms in \<open>auto simp add: effect_simps wrappedLoadPage_simps subscriber_simps
       split: if_splits\<close>)

theorem loading_follows_captured_page_witness:
  "length (searches (step example_imports (SearchHandler example_props ''hosts'' False)
      example_page_3_loaded)) \<noteq> length (searches example_page_3_loaded) \<and>
   activePage (pagination (s_request (last (searches
     (step example_imports (SearchHandler example_props ''hosts'' False)
        example_page_3_loaded))))) = 0 \<and>
   activePageState example_page_3_loaded = 3 \<and>
   loading (step example_imports (SearchHandler example_props ''hosts'' False)
      example_page_3_loaded) = LoadingMore \<and>
   length (searches (step example_imports (RefetchGrid example_timeline_props ''alerts'')
      example_timeline_searching)) \<noteq> length (searches example_timeline_searching) \<and>
   loading (step example_imports (RefetchGrid example_timeline_props ''alerts'')
      example_timeline_searching) = Loading"
proof -
  let ?e = "SearchHandler example_props ''hosts'' False"
  let ?st = example_page_3_loaded
  have h: "length (searches (step example_imports ?e ?st)) \<noteq> length (searches ?st)"
    by (simp add: hook_defs example_defs Let_def)
  have page: "activePage (pagination (s_request (last (searches
     (step example_imports ?e ?st))))) = 0"
    by (simp add: hook_defs example_defs Let_def)
  have state: "activePageState ?st = 3"
    by (simp add: hook_defs example_defs Let_def)
  let ?r = "RefetchGrid example_timeline_props ''alerts''"
  let ?s = example_timeline_searching
  have h': "length (searches (step example_imports ?r ?s)) \<noteq> length (searches ?s)"
    by (simp add: hook_defs example_defs Let_def)
  have cl: "c_activePage (s_closure (last (searches (step example_imports ?r ?s)))) = 0"
    by (simp add: hook_defs example_defs Let_def)
  from loading_follows_captured_page [OF h] state
  have "loading (step example_imports ?e ?st) = LoadingMore"
    by simp
  moreover from loading_follows_captured_page [OF h'] cl
  have "loading (step example_imports ?r ?s) = Loading"
    by simp
  ultimately show ?thesis using h page state h' by blast
qed

subsection \<open>Resuming from the shared object\<close>




subsection \<open>The gate of the search handler\<close>

text \<open>
  C10, the claim as stated fails: a hook that is not the active timeline, with the skip
  flag set, holds a derived request; its search handler calls \<^verbatim>\<open>timelineSearch\<close>, which
  ignores the call, and the search service is not called.
\<close>
theorem no_search_for_other_identity_when_skip_is_set:
  "id_of (example_props\<lparr>p_skip := Some True\<rparr>) \<noteq> TimelineId_active \<and>
   timelineRequest (run example_imports
      [SetTimelineRequest (example_props\<lparr>p_skip := Some True\<rparr>)]
      (initHook (example_props\<lparr>p_skip := Some True\<rparr>) example_activeTimeline)) \<noteq> None \<and>
   searches (run example_imports
      [SetTimelineRequest (example_props\<lparr>p_skip := Some True\<rparr>),
       SearchHandler (example_props\<lparr>p_skip := Some True\<rparr>) ''hosts'' False]
      (initHook (example_props\<lparr>p_skip := Some True\<rparr>) example_activeTimeline)) = []"
  by (simp add: hook_defs example_defs Let_def)

text \<open>
  C10, amended. Let the hook hold a derived request, and let \<^verbatim>\<open>timelineSearch\<close> neither
  ignore the call (page name not empty, skip flag not set) nor take a cached response
  after a change of page (which it can only for the active timeline). Then the handler
  does nothing when the identity is the active timeline, the timerange kind is not
  \<^verbatim>\<open>absolute\<close> and the derived request is deep-equal to the previous request; in every
  other case (another identity, or the kind \<^verbatim>\<open>absolute\<close>, or a different request) it
  calls the search service once, with the derived request.
\<close>
theorem timelineSearchHandler_gate:
  assumes "timelineRequest st = Some r"
    and "c_pageName c \<noteq> []"
    and "\<not> c_skip c"
    and "\<not> (pageChanged c st \<and> cachedResponse r st \<noteq> None)"
  shows "(if c_id c = TimelineId_active \<and> timerangeKind \<noteq> Some absolute \<and>
             prevTimelineRequest st = timelineRequest st
          then timelineSearchHandler c timerangeKind onNextHandler st = st
          else searches (timelineSearchHandler c timerangeKind onNextHandler st) =
                 searches st @
                   [\<lparr>s_request = r, s_strategy = strategy_of r, s_abortSignal = controllers st,
                     s_indexPatternId = c_dataViewId c, s_closure = c,
                     s_onNext = onNextHandler\<rparr>])"
  using assms by (auto simp: timelineSearchHandler_def timelineSearch_searches)

theorem timelineSearchHandler_gate_witness:
  "timelineRequest
     ((initHook example_props example_activeTimeline)
        \<lparr>timelineRequest := Some example_request,
         prevTimelineRequest := Some example_request\<rparr>) = Some example_request \<and>
   c_pageName (example_closure\<lparr>c_id := ''hosts-page-events''\<rparr>) \<noteq> [] \<and>
   \<not> c_skip (example_closure\<lparr>c_id := ''hosts-page-events''\<rparr>) \<and>
   \<not> (pageChanged (example_closure\<lparr>c_id := ''hosts-page-events''\<rparr>)
         ((initHook example_props example_activeTimeline)
            \<lparr>timelineRequest := Some example_request,
             prevTimelineRequest := Some example_request\<rparr>) \<and>
       cachedResponse example_request
         ((initHook example_props example_activeTimeline)
            \<lparr>timelineRequest := Some example_request,
             prevTimelineRequest := Some example_request\<rparr>) \<noteq> None) \<and>
   length (searches
     (timelineSearchHandler (example_closure\<lparr>c_id := ''hosts-page-events''\<rparr>) None False
        ((initHook example_props example_activeTimeline)
           \<lparr>timelineRequest := Some example_request,
            prevTimelineRequest := Some example_request\<rparr>))) = 1"
proof -
  let ?c = "example_closure\<lparr>c_id := ''hosts-page-events''\<rparr>"
  let ?st = "(initHook example_props example_activeTimeline)
        \<lparr>timelineRequest := Some example_request,
         prevTimelineRequest := Some example_request\<rparr>"
  have h1: "timelineRequest ?st = Some example_request" by simp
  have h2: "c_pageName ?c \<noteq> []" by (simp add: example_closure_def)
  have h3: "\<not> c_skip ?c" by (simp add: example_closure_def)
  have h4: "\<not> (pageChanged ?c ?st \<and> cachedResponse example_request ?st \<noteq> None)"
    by (simp add: pageChanged_def TimelineId_active_def)
  have other: "c_id ?c \<noteq> TimelineId_active" by (simp add: TimelineId_active_def)
  have init: "searches ?st = []" by (simp add: initHook_def)
  from timelineSearchHandler_gate [OF h1 h2 h3 h4, of None False] other
  have "length (searches (timelineSearchHandler ?c None False ?st)) = 1"
    by (simp add: init)
  with h1 h2 h3 h4 show ?thesis by blast
qed

text \<open>The request that the handler compares with the previous one keeps the keys of
  \<^verbatim>\<open>eqlOptions\<close> as the spread of line 400 copies them: when the options get a key with
  the value \<^verbatim>\<open>undefined\<close>, the derived request is another one and the active timeline
  searches again; with the same props it does not.\<close>
lemma undefined_key_makes_another_request:
  "length (searches (run example_imports
       [SetTimelineRequest example_timeline_props,
        SearchHandler example_timeline_props ''alerts'' False,
        SetTimelineRequest example_props_undefined_key,
        SearchHandler example_props_undefined_key ''alerts'' False]
       (initHook example_timeline_props example_activeTimeline))) = 2 \<and>
   length (searches (run example_imports
       [SetTimelineRequest example_timeline_props,
        SearchHandler example_timeline_props ''alerts'' False,
        SetTimelineRequest example_timeline_props,
        SearchHandler example_timeline_props ''alerts'' False]
       (initHook example_timeline_props example_activeTimeline))) = 1"
  by (simp add: hook_defs example_defs Let_def)

subsection \<open>One subscription at a time\<close>

lemma onlyCurrentActive_kept:
  assumes "searches st' = searches st" "set (unsubscribed st) \<subseteq> set (unsubscribed st')"
    "searchSubscription st' = searchSubscription st" "onlyCurrentActive st"
  shows "onlyCurrentActive st'"
  using assms unfolding onlyCurrentActive_def activeSubscriptions_def list_all_iff by auto

lemma unsubscribe_none_active:
  assumes "onlyCurrentActive st"
  shows "activeSubscriptions (unsubscribe st) = []"
  using assms unfolding onlyCurrentActive_def activeSubscriptions_def list_all_iff
  by (auto simp: unsubscribe_simps filter_empty_conv)

lemma activeSubscriptions_abort: "activeSubscriptions (abort st) = activeSubscriptions st"
  by (simp add: activeSubscriptions_def abort_simps)

lemma activeSubscriptions_asyncSearch:
  "activeSubscriptions (asyncSearch c r h st) =
     activeSubscriptions st @
       (if OfSearch (length (searches st)) \<in> set (unsubscribed st) then []
        else [length (searches st)])"
  by (simp add: activeSubscriptions_def asyncSearch_searches asyncSearch_simps)

lemma activeSubscriptions_refetch_update:
  "activeSubscriptions (st\<lparr>refetch := f\<rparr>) = activeSubscriptions st"
  by (simp add: activeSubscriptions_def)

lemma onlyCurrentActive_timelineSearch:
  assumes "onlyCurrentActive st"
  shows "onlyCurrentActive (timelineSearch c req h st)"
proof (cases req)
  case None
  with assms show ?thesis by (simp add: timelineSearch_def)
next
  case (Some r)
  show ?thesis
  proof (cases "c_pageName c = [] \<or> c_skip c")
    case True
    with Some assms show ?thesis by (auto simp: timelineSearch_def)
  next
    case False
    let ?st1 = "if pageChanged c st then resumeFromCache c r h st else st"
    have st1: "onlyCurrentActive ?st1"
      using assms by (auto intro: onlyCurrentActive_kept [of _ st] simp: resumeFromCache_simps)
    show ?thesis
    proof (cases "pageChanged c st \<and> cachedResponse r st \<noteq> None")
      case True
      with False Some have "timelineSearch c req h st = resumeFromCache c r h st"
        by (simp add: timelineSearch_resume)
      with st1 True show ?thesis by simp
    next
      case dispatch: False
      from False have g: "c_pageName c \<noteq> []" "\<not> c_skip c" by simp_all
      have "activeSubscriptions (abort (unsubscribe ?st1)) = []"
        using unsubscribe_none_active [OF st1] by (simp add: activeSubscriptions_abort)
      then show ?thesis
        unfolding Some timelineSearch_dispatch [OF g dispatch] onlyCurrentActive_def
        by (simp add: activeSubscriptions_refetch_update activeSubscriptions_asyncSearch
            asyncSearch_simps abort_simps unsubscribe_simps)
    qed
  qed
qed

lemma searchSubscription_simps:
  "searchSubscription (setTimelineRequestEffect cf p st) = searchSubscription st"
  "searchSubscription (filterClearEffect p st) = searchSubscription st"
  "searchSubscription (wrappedLoadPage d c n st) = searchSubscription st"
  "searchSubscription (subscriber_next g call resp now st) = searchSubscription st"
  "searchSubscription (subscriber_error msg st) = searchSubscription st"
  "set (unsubscribed st) \<subseteq> set (unsubscribed (subscriber_next g call resp now st))"
  "set (unsubscribed st) \<subseteq> set (unsubscribed (subscriber_error msg st))"
  by (auto simp: setTimelineRequestEffect_def filterClearEffect_def wrappedLoadPage_def
      clearSignalsState_def subscriber_next_def subscriber_error_def unsubscribe_def Let_def)

lemma unsubscribed_kept:
  "x \<in> set (unsubscribed st) \<Longrightarrow>
     x \<in> set (unsubscribed (subscriber_next g call resp now st))"
  "x \<in> set (unsubscribed st) \<Longrightarrow> x \<in> set (unsubscribed (subscriber_error msg st))"
  using searchSubscription_simps(6,7) by blast+

lemma onlyCurrentActive_step:
  assumes "onlyCurrentActive st" "\<not> isRefetchGrid e"
  shows "onlyCurrentActive (step im e st)"
proof (cases e)
  case (SearchHandler p pageName h)
  with assms show ?thesis
    by (simp add: timelineSearchHandler_def onlyCurrentActive_timelineSearch)
next
  case (RefetchGrid p pageName)
  with assms show ?thesis by (simp add: isRefetchGrid_def)
qed (use assms in \<open>auto intro!: onlyCurrentActive_kept [of _ st]
        simp: effect_simps wrappedLoadPage_simps subscriber_simps searchSubscription_simps
          unsubscribed_kept\<close>)

lemma onlyCurrentActive_run:
  "onlyCurrentActive st \<Longrightarrow> list_all (\<lambda>e. \<not> isRefetchGrid e) es \<Longrightarrow>
   onlyCurrentActive (run im es st)"
  by (induction es arbitrary: st) (simp_all add: onlyCurrentActive_step)

lemma onlyCurrentActive_at_most_one:
  assumes "onlyCurrentActive st"
  shows "length (activeSubscriptions st) \<le> 1"
proof -
  have d: "distinct (activeSubscriptions st)" by (simp add: activeSubscriptions_def)
  have "\<exists>a. set (activeSubscriptions st) \<subseteq> {a}"
    using assms unfolding onlyCurrentActive_def list_all_iff
    by (cases "searchSubscription st") auto
  then obtain a where "set (activeSubscriptions st) \<subseteq> {a}" ..
  then have "card (set (activeSubscriptions st)) \<le> card {a}"
    by (intro card_mono) simp_all
  with d show ?thesis by (simp add: distinct_card)
qed

text \<open>The path through \<^verbatim>\<open>timelineSearch\<close> (lines 316-318) cancels first: whenever it calls
  the search service, the subscription and the abort controller that the refs held are
  unsubscribed and aborted.\<close>
lemma timelineSearch_cancels_first:
  assumes "length (searches (timelineSearch c request h st)) \<noteq> length (searches st)"
  shows "searchSubscription st \<in> set (unsubscribed (timelineSearch c request h st)) \<and>
         abortCtrl st \<in> set (aborted (timelineSearch c request h st))"
proof -
  from assms obtain r where r: "request = Some r"
    by (cases request) (simp_all add: timelineSearch_def)
  from assms r have guard: "c_pageName c \<noteq> []" "\<not> c_skip c"
      "\<not> (pageChanged c st \<and> cachedResponse r st \<noteq> None)"
    by (auto simp: timelineSearch_searches split: if_splits)
  show ?thesis
    unfolding r timelineSearch_dispatch [OF guard]
    by (simp add: asyncSearch_simps abort_simps unsubscribe_simps resumeFromCache_simps)
qed

text \<open>In an execution in which \<^verbatim>\<open>refetchGrid\<close> is never called, at most one subscription
  is active at every point.\<close>
lemma one_subscription_without_refetchGrid:
  assumes "list_all (\<lambda>e. \<not> isRefetchGrid e) es"
  shows "length (activeSubscriptions (run im es (initHook p at))) \<le> 1"
proof -
  have "onlyCurrentActive (initHook p at)"
    by (simp add: onlyCurrentActive_def activeSubscriptions_def initHook_def)
  then show ?thesis
    using assms by (intro onlyCurrentActive_at_most_one onlyCurrentActive_run)
qed

lemma inFlightTracked_kept:
  assumes "searches st' = searches st" "set (unsubscribed st) \<subseteq> set (unsubscribed st')"
    "searchSubscription st' = searchSubscription st" "abortCtrl st' = abortCtrl st"
    "inFlightTracked st"
  shows "inFlightTracked st'"
  using assms unfolding inFlightTracked_def activeSubscriptions_def list_all_iff by auto

lemma inFlightTracked_onlyCurrentActive: "inFlightTracked st \<Longrightarrow> onlyCurrentActive st"
  unfolding inFlightTracked_def onlyCurrentActive_def list_all_iff by simp

lemma abortCtrl_simps:
  "abortCtrl (setTimelineRequestEffect cf p st) = abortCtrl st"
  "abortCtrl (filterClearEffect p st) = abortCtrl st"
  "abortCtrl (wrappedLoadPage d c n st) = abortCtrl st"
  "abortCtrl (subscriber_next g call resp now st) = abortCtrl st"
  "abortCtrl (subscriber_error msg st) = abortCtrl st"
  by (simp_all add: setTimelineRequestEffect_def filterClearEffect_def wrappedLoadPage_def
      clearSignalsState_def subscriber_next_def subscriber_error_def unsubscribe_def Let_def)

lemma inFlightTracked_timelineSearch:
  assumes "inFlightTracked st"
  shows "inFlightTracked (timelineSearch c req h st)"
proof (cases req)
  case None
  with assms show ?thesis by (simp add: timelineSearch_def)
next
  case (Some r)
  show ?thesis
  proof (cases "c_pageName c = [] \<or> c_skip c")
    case True
    with Some assms show ?thesis by (auto simp: timelineSearch_def)
  next
    case False
    let ?st1 = "if pageChanged c st then resumeFromCache c r h st else st"
    have st1: "inFlightTracked ?st1"
      using assms by (auto intro: inFlightTracked_kept [of _ st] simp: resumeFromCache_simps)
    show ?thesis
    proof (cases "pageChanged c st \<and> cachedResponse r st \<noteq> None")
      case True
      with False Some have "timelineSearch c req h st = resumeFromCache c r h st"
        by (simp add: timelineSearch_resume)
      with st1 True show ?thesis by simp
    next
      case dispatch: False
      from False have g: "c_pageName c \<noteq> []" "\<not> c_skip c" by simp_all
      have "activeSubscriptions (abort (unsubscribe ?st1)) = []"
        using unsubscribe_none_active [OF inFlightTracked_onlyCurrentActive [OF st1]]
        by (simp add: activeSubscriptions_abort)
      then show ?thesis
        unfolding Some timelineSearch_dispatch [OF g dispatch] inFlightTracked_def
        by (simp add: activeSubscriptions_refetch_update activeSubscriptions_asyncSearch
            asyncSearch_simps asyncSearch_searches abort_simps unsubscribe_simps)
    qed
  qed
qed

lemma inFlightTracked_step:
  assumes "inFlightTracked st" "\<not> isRefetchGrid e"
  shows "inFlightTracked (step im e st)"
proof (cases e)
  case (SearchHandler p pageName h)
  with assms show ?thesis
    by (simp add: timelineSearchHandler_def inFlightTracked_timelineSearch)
next
  case (RefetchGrid p pageName)
  with assms show ?thesis by (simp add: isRefetchGrid_def)
qed (use assms in \<open>auto intro!: inFlightTracked_kept [of _ st]
        simp: effect_simps wrappedLoadPage_simps subscriber_simps searchSubscription_simps
          abortCtrl_simps unsubscribed_kept\<close>)

lemma inFlightTracked_run:
  "inFlightTracked st \<Longrightarrow> list_all (\<lambda>e. \<not> isRefetchGrid e) es \<Longrightarrow>
   inFlightTracked (run im es st)"
  by (induction es arbitrary: st) (simp_all add: inFlightTracked_step)

text \<open>In an execution in which \<^verbatim>\<open>refetchGrid\<close> is never called, every search in flight
  is the one the refs hold.\<close>
lemma inFlightTracked_without_refetchGrid:
  assumes "list_all (\<lambda>e. \<not> isRefetchGrid e) es"
  shows "inFlightTracked (run im es (initHook p at))"
proof -
  have "inFlightTracked (initHook p at)"
    by (simp add: inFlightTracked_def activeSubscriptions_def initHook_def)
  then show ?thesis using assms by (rule inFlightTracked_run)
qed

text \<open>
  C4. The claim: at most one subscription is active, and every new search is preceded by
  unsubscribing and aborting the previous one. The code on the path through
  \<^verbatim>\<open>refetchGrid\<close> (lines 189-194), which calls \<^verbatim>\<open>asyncSearch\<close> directly: the request is
  derived, the handler searches (call 0, abort controller 1), and \<^verbatim>\<open>refetchGrid\<close> is
  called before any response. There are two calls of the search service, both
  subscriptions are active, and the only aborted controller is the initial one (0): the
  controller of call 0 was not aborted.
\<close>
theorem refetchGrid_leaves_previous_search_running:
  "length (searches (run im
      [SetTimelineRequest example_props, SearchHandler example_props ''hosts'' False,
       RefetchGrid example_props ''hosts'']
      (initHook example_props at))) = 2 \<and>
   activeSubscriptions (run im
      [SetTimelineRequest example_props, SearchHandler example_props ''hosts'' False,
       RefetchGrid example_props ''hosts'']
      (initHook example_props at)) = [0, 1] \<and>
   map s_abortSignal (searches (run im
      [SetTimelineRequest example_props, SearchHandler example_props ''hosts'' False,
       RefetchGrid example_props ''hosts'']
      (initHook example_props at))) = [1, 2] \<and>
   aborted (run im
      [SetTimelineRequest example_props, SearchHandler example_props ''hosts'' False,
       RefetchGrid example_props ''hosts'']
      (initHook example_props at)) = [0]"
  by (simp add: hook_defs example_defs Let_def)

end
